theory Spec2Isabelle
  imports Main "HOL-Library.Word"
begin

section \<open>The DocumentSignature contract\<close>

text \<open>
  The ledger is the Solidity contract \<^verbatim>\<open>DocumentSignature\<close>. An \<^verbatim>\<open>address\<close> is a
  160-bit word and a \<^verbatim>\<open>uint256\<close> a 256-bit word; a Solidity \<^verbatim>\<open>mapping\<close> is a total
  function whose unwritten keys hold the zero value of the value type. Gas is not
  modelled: a call fails only where a \<^verbatim>\<open>require\<close> of the contract fails.
\<close>

type_synonym address = "160 word"
type_synonym uint256 = "256 word"

text \<open>
  \<^verbatim>\<open>struct Signature { bool signed; uint256 timestamp; string ipfsHash; }\<close>
  The first two fields carry the prefix \<open>sig_\<close>: \<open>signed\<close> is a constant of the word
  library and \<open>timestamp\<close> is also a field of \<^verbatim>\<open>Document\<close>.
\<close>

record Signature =
  sig_signed :: bool
  sig_timestamp :: uint256
  ipfsHash :: string

text \<open>
  \<^verbatim>\<open>struct Document { string documentHash; address[] signers; uint256 timestamp;
                    bool isActive; mapping(address => Signature) signatures; }\<close>
\<close>

record Document =
  documentHash :: string
  signers :: "address list"
  timestamp :: uint256
  isActive :: bool
  signatures :: "address \<Rightarrow> Signature"

datatype event =
  DocumentCreated string address
| DocumentSigned string address
| DocumentRevoked string address

text \<open>
  The contract's storage (\<^verbatim>\<open>documents\<close>, \<^verbatim>\<open>userDocuments\<close>) together with the log of
  emitted events.
\<close>

record ledger =
  documents :: "string \<Rightarrow> Document"
  userDocuments :: "address \<Rightarrow> string list"
  events :: "event list"

definition zeroSignature :: Signature where
  "zeroSignature = \<lparr>sig_signed = False, sig_timestamp = 0, ipfsHash = ''''\<rparr>"

definition zeroDocument :: Document where
  "zeroDocument = \<lparr>documentHash = '''', signers = [], timestamp = 0, isActive = False,
     signatures = (\<lambda>_. zeroSignature)\<rparr>"

text \<open>The storage of the freshly deployed contract.\<close>

definition deployed :: ledger where
  "deployed = \<lparr>documents = (\<lambda>_. zeroDocument), userDocuments = (\<lambda>_. []), events = []\<rparr>"

text \<open>The reason strings of the contract's \<^verbatim>\<open>require\<close> statements.\<close>

datatype error =
  DocumentDoesNotExist      \<comment> \<open>"Document does not exist"\<close>
| DocumentIsNotActive       \<comment> \<open>"Document is not active"\<close>
| DocumentAlreadyExists     \<comment> \<open>"Document already exists"\<close>
| MustHaveAtLeastOneSigner  \<comment> \<open>"Must have at least one signer"\<close>
| NotAuthorizedToSign       \<comment> \<open>"Not authorized to sign this document"\<close>
| AlreadySigned             \<comment> \<open>"Already signed"\<close>

text \<open>
  The conditions of the modifiers \<^verbatim>\<open>documentExists\<close> and \<^verbatim>\<open>documentActive\<close>.
\<close>

definition documentExists :: "ledger \<Rightarrow> string \<Rightarrow> bool" where
  "documentExists s docHash \<longleftrightarrow> timestamp (documents s docHash) > 0"

definition documentActive :: "ledger \<Rightarrow> string \<Rightarrow> bool" where
  "documentActive s docHash \<longleftrightarrow> isActive (documents s docHash)"

text \<open>
  \<^verbatim>\<open>createDocument\<close>. Every external function takes the storage, and a mutating one
  also \<^verbatim>\<open>msg.sender\<close> and \<^verbatim>\<open>block.timestamp\<close>; a failed \<^verbatim>\<open>require\<close> is \<open>Inl\<close>
  of its reason. The assignment to \<^verbatim>\<open>doc\<close> writes four fields and leaves the
  \<^verbatim>\<open>signatures\<close> mapping of the slot as it is.
\<close>

definition createDocument ::
  "ledger \<Rightarrow> address \<Rightarrow> uint256 \<Rightarrow> string \<Rightarrow> address list \<Rightarrow> error + ledger" where
  "createDocument s sender now docHash requiredSigners =
     (if \<not> (timestamp (documents s docHash) = 0) then Inl DocumentAlreadyExists
      else if \<not> (length requiredSigners > 0) then Inl MustHaveAtLeastOneSigner
      else
        let doc = (documents s docHash)
              \<lparr>documentHash := docHash, signers := requiredSigners,
               timestamp := now, isActive := True\<rparr>
        in Inr (s\<lparr>documents := (documents s)(docHash := doc),
                 userDocuments :=
                   (userDocuments s)(sender := userDocuments s sender @ [docHash]),
                 events := events s @ [DocumentCreated docHash sender]\<rparr>))"

text \<open>
  The authorization loop of \<^verbatim>\<open>signDocument\<close>, from index \<open>i\<close>:
  \<^verbatim>\<open>for (uint i = 0; i < doc.signers.length; i++)
       if (doc.signers[i] == msg.sender) { authorized = true; break; }\<close>
  The result is the final value of \<^verbatim>\<open>authorized\<close>, which starts as \<open>False\<close>.
\<close>

function authorizedScan :: "address list \<Rightarrow> address \<Rightarrow> nat \<Rightarrow> bool" where
  "authorizedScan sgs sender i =
     (if i < length sgs
      then (if sgs ! i = sender then True else authorizedScan sgs sender (i + 1))
      else False)"
  by pat_completeness auto
termination
  by (relation "measure (\<lambda>(sgs, sender, i). length sgs - i)") auto

declare authorizedScan.simps [simp del]

definition signDocument ::
  "ledger \<Rightarrow> address \<Rightarrow> uint256 \<Rightarrow> string \<Rightarrow> string \<Rightarrow> error + ledger" where
  "signDocument s sender now docHash signatureIpfsHash =
     (if \<not> documentExists s docHash then Inl DocumentDoesNotExist
      else if \<not> documentActive s docHash then Inl DocumentIsNotActive
      else
        let doc = documents s docHash;
            authorized = authorizedScan (signers doc) sender 0
        in if \<not> authorized then Inl NotAuthorizedToSign
           else if sig_signed (signatures doc sender) then Inl AlreadySigned
           else Inr (s\<lparr>documents := (documents s)(docHash :=
                         doc\<lparr>signatures := (signatures doc)(sender :=
                           \<lparr>sig_signed = True, sig_timestamp = now,
                            ipfsHash = signatureIpfsHash\<rparr>)\<rparr>),
                       events := events s @ [DocumentSigned docHash sender]\<rparr>))"

text \<open>
  The loop of \<^verbatim>\<open>isFullySigned\<close>, from index \<open>i\<close>:
  \<^verbatim>\<open>for (uint i = 0; i < doc.signers.length; i++)
       if (!doc.signatures[doc.signers[i]].signed) return false;
   return true;\<close>
\<close>

function fullySignedScan :: "Document \<Rightarrow> nat \<Rightarrow> bool" where
  "fullySignedScan doc i =
     (if i < length (signers doc)
      then (if \<not> sig_signed (signatures doc (signers doc ! i)) then False
            else fullySignedScan doc (i + 1))
      else True)"
  by pat_completeness auto
termination
  by (relation "measure (\<lambda>(doc, i). length (signers doc) - i)") auto

declare fullySignedScan.simps [simp del]

definition isFullySigned :: "ledger \<Rightarrow> string \<Rightarrow> error + bool" where
  "isFullySigned s docHash =
     (if \<not> documentExists s docHash then Inl DocumentDoesNotExist
      else Inr (fullySignedScan (documents s docHash) 0))"

definition getSignature ::
  "ledger \<Rightarrow> string \<Rightarrow> address \<Rightarrow> error + (bool \<times> uint256 \<times> string)" where
  "getSignature s docHash signer =
     (if \<not> documentExists s docHash then Inl DocumentDoesNotExist
      else let sg = signatures (documents s docHash) signer
           in Inr (sig_signed sg, sig_timestamp sg, ipfsHash sg))"

definition getDocumentSigners :: "ledger \<Rightarrow> string \<Rightarrow> error + address list" where
  "getDocumentSigners s docHash =
     (if \<not> documentExists s docHash then Inl DocumentDoesNotExist
      else Inr (signers (documents s docHash)))"

definition getUserDocuments :: "ledger \<Rightarrow> address \<Rightarrow> error + string list" where
  "getUserDocuments s user = Inr (userDocuments s user)"

definition revokeDocument ::
  "ledger \<Rightarrow> address \<Rightarrow> uint256 \<Rightarrow> string \<Rightarrow> error + ledger" where
  "revokeDocument s sender now docHash =
     (if \<not> documentExists s docHash then Inl DocumentDoesNotExist
      else Inr (s\<lparr>documents := (documents s)(docHash :=
                    (documents s docHash)\<lparr>isActive := False\<rparr>),
                  events := events s @ [DocumentRevoked docHash sender]\<rparr>))"

definition verifyDocumentSignature ::
  "ledger \<Rightarrow> string \<Rightarrow> address \<Rightarrow> error + (bool \<times> uint256 \<times> bool)" where
  "verifyDocumentSignature s docHash signer =
     (if timestamp (documents s docHash) = 0 then Inr (False, 0, False)
      else let doc = documents s docHash;
               sg = signatures doc signer
           in Inr (sig_signed sg, sig_timestamp sg, isActive doc))"

subsection \<open>Transactions\<close>

text \<open>
  A transaction is a call of one of the three mutating functions by \<^verbatim>\<open>msg.sender\<close> in a
  block with time \<^verbatim>\<open>block.timestamp\<close>. A transaction whose \<^verbatim>\<open>require\<close> fails reverts:
  the storage after it is the storage before it.
\<close>

datatype call =
  CreateDocument string "address list"
| SignDocument string string
| RevokeDocument string

record tx =
  msg_sender :: address
  block_timestamp :: uint256
  tx_call :: call

fun invoke :: "ledger \<Rightarrow> tx \<Rightarrow> error + ledger" where
  "invoke s t =
     (case tx_call t of
        CreateDocument docHash sgs \<Rightarrow>
          createDocument s (msg_sender t) (block_timestamp t) docHash sgs
      | SignDocument docHash ipfs \<Rightarrow>
          signDocument s (msg_sender t) (block_timestamp t) docHash ipfs
      | RevokeDocument docHash \<Rightarrow>
          revokeDocument s (msg_sender t) (block_timestamp t) docHash)"

definition commit :: "ledger \<Rightarrow> error + ledger \<Rightarrow> ledger" where
  "commit s r = (case r of Inl e \<Rightarrow> s | Inr s' \<Rightarrow> s')"

definition step :: "ledger \<Rightarrow> tx \<Rightarrow> ledger" where
  "step s t = commit s (invoke s t)"

definition run :: "ledger \<Rightarrow> tx list \<Rightarrow> ledger" where
  "run s ts = foldl step s ts"

text \<open>
  The ledger of the end-to-end scenario: the deployed contract after account \<open>1\<close> has
  created document \<open>H\<close> with the signers \<open>10\<close> and \<open>11\<close> at time \<open>1000\<close>.
\<close>

definition scenarioH :: ledger where
  "scenarioH = step deployed
     \<lparr>msg_sender = 1, block_timestamp = 1000, tx_call = CreateDocument ''H'' [10, 11]\<rparr>"

text \<open>The scenario after signer \<open>10\<close> has signed at time \<open>2000\<close>.\<close>

definition scenarioSigned :: ledger where
  "scenarioSigned = step scenarioH
     \<lparr>msg_sender = 10, block_timestamp = 2000, tx_call = SignDocument ''H'' ''Qm''\<rparr>"

text \<open>The scenario after account \<open>99\<close> has then revoked the document at time \<open>5000\<close>.\<close>

definition scenarioRevoked :: ledger where
  "scenarioRevoked = step scenarioSigned
     \<lparr>msg_sender = 99, block_timestamp = 5000, tx_call = RevokeDocument ''H''\<rparr>"

section \<open>The ledger client\<close>

text \<open>
  \<^verbatim>\<open>DocumentSignatureService\<close> wraps the contract. Its constructor builds one wallet from
  \<^verbatim>\<open>config.privateKey\<close> and connects the contract object to it, so every transaction the
  service sends has that wallet's address as \<^verbatim>\<open>msg.sender\<close>: the service is modelled
  by this address. Every method catches what the call throws and returns
  \<^verbatim>\<open>{success: false, error}\<close>, here \<open>Inl\<close>, or \<^verbatim>\<open>{success: true, ...}\<close>, here \<open>Inr\<close>.
  The connection to the node is taken to work; what a call can still throw is the
  contract's revert or the range error of \<^verbatim>\<open>BigNumber.toNumber\<close>.
\<close>

datatype failure =
  Reverted error
| NumericOverflow
| Unavailable string

text \<open>
  \<^verbatim>\<open>timestamp.toNumber()\<close> of the ethers library: a value of more than 53 bits throws.
\<close>

definition toNumber :: "uint256 \<Rightarrow> failure + nat" where
  "toNumber v = (if unat v < 2 ^ 53 then Inr (unat v) else Inl NumericOverflow)"

definition service_signDocument ::
  "address \<Rightarrow> uint256 \<Rightarrow> ledger \<Rightarrow> string \<Rightarrow> string \<Rightarrow> (failure + unit) \<times> ledger" where
  "service_signDocument wallet now s docHash signatureMetadata =
     (case signDocument s wallet now docHash signatureMetadata of
        Inl e \<Rightarrow> (Inl (Reverted e), s)
      | Inr s' \<Rightarrow> (Inr (), s'))"

definition isDocumentFullySigned :: "ledger \<Rightarrow> string \<Rightarrow> failure + bool" where
  "isDocumentFullySigned s docHash =
     (case isFullySigned s docHash of
        Inl e \<Rightarrow> Inl (Reverted e)
      | Inr isComplete \<Rightarrow> Inr isComplete)"

definition getSignatureStatus ::
  "ledger \<Rightarrow> string \<Rightarrow> address \<Rightarrow> failure + (bool \<times> nat \<times> string)" where
  "getSignatureStatus s docHash signerAddress =
     (case getSignature s docHash signerAddress of
        Inl e \<Rightarrow> Inl (Reverted e)
      | Inr (isSigned, ts, ipfs) \<Rightarrow>
          (case toNumber ts of
             Inl f \<Rightarrow> Inl f
           | Inr n \<Rightarrow> Inr (isSigned, n, ipfs)))"

definition verifySignature ::
  "ledger \<Rightarrow> string \<Rightarrow> address \<Rightarrow> failure + (bool \<times> nat \<times> bool)" where
  "verifySignature s docHash signerAddress =
     (case verifyDocumentSignature s docHash signerAddress of
        Inl e \<Rightarrow> Inl (Reverted e)
      | Inr (isValid, signedAt, active) \<Rightarrow>
          (case toNumber signedAt of
             Inl f \<Rightarrow> Inl f
           | Inr n \<Rightarrow> Inr (isValid, n, active)))"

definition getRequiredSigners :: "ledger \<Rightarrow> string \<Rightarrow> failure + address list" where
  "getRequiredSigners s docHash =
     (case getDocumentSigners s docHash of
        Inl e \<Rightarrow> Inl (Reverted e)
      | Inr sgs \<Rightarrow> Inr sgs)"

section \<open>The signature routes\<close>

subsection \<open>The verify route\<close>

text \<open>
  What \<^verbatim>\<open>await signatureService.verifySignature(documentHash, signer)\<close> does inside the
  handler's loop: it returns a result object or it throws, and the handler catches that.
\<close>

datatype 'a attempt = Returned 'a | Threw failure

record verificationResult =
  vr_signer :: address
  vr_isValid :: bool
  vr_signedAt :: nat
  vr_documentActive :: bool
  vr_error :: "failure option"

text \<open>The body of the loop: the entry pushed for one signer.\<close>

fun verificationEntry ::
  "address \<Rightarrow> (failure + (bool \<times> nat \<times> bool)) attempt \<Rightarrow> verificationResult" where
  "verificationEntry signer (Returned (Inr (isValid, signedAt, active))) =
     \<lparr>vr_signer = signer, vr_isValid = isValid, vr_signedAt = signedAt,
      vr_documentActive = active, vr_error = None\<rparr>"
| "verificationEntry signer (Returned (Inl err)) =
     \<lparr>vr_signer = signer, vr_isValid = False, vr_signedAt = 0,
      vr_documentActive = False, vr_error = Some err\<rparr>"
| "verificationEntry signer (Threw err) =
     \<lparr>vr_signer = signer, vr_isValid = False, vr_signedAt = 0,
      vr_documentActive = False, vr_error = Some err\<rparr>"

text \<open>
  \<^verbatim>\<open>for (const signer of signersResult.signers) { ... verificationResults.push(...) }\<close>
\<close>

primrec verificationResults ::
  "(address \<Rightarrow> (failure + (bool \<times> nat \<times> bool)) attempt) \<Rightarrow> address list
     \<Rightarrow> verificationResult list" where
  "verificationResults verify [] = []"
| "verificationResults verify (signer # rest) =
     verificationEntry signer (verify signer) # verificationResults verify rest"

record verifyReport =
  rep_documentHash :: string
  isFullyValid :: bool
  validSignatures :: nat
  totalSigners :: nat
  rep_verificationResults :: "verificationResult list"

datatype verifyResponse =
  VerifyNotFound                \<comment> \<open>status 404, "Document not found"\<close>
| VerifyOk verifyReport         \<comment> \<open>status 200\<close>

text \<open>
  The handler of \<^verbatim>\<open>POST /:documentHash/verify\<close>, over the two service methods it calls:
  the result of \<^verbatim>\<open>getRequiredSigners\<close> and the outcome of \<^verbatim>\<open>verifySignature\<close> for each
  signer. The field \<^verbatim>\<open>verifiedAt\<close>, the wall-clock time of the response, is left out.
\<close>

definition verifyHandler ::
  "(failure + address list) \<Rightarrow> (address \<Rightarrow> (failure + (bool \<times> nat \<times> bool)) attempt)
     \<Rightarrow> string \<Rightarrow> verifyResponse" where
  "verifyHandler signersResult verify docHash =
     (case signersResult of
        Inl _ \<Rightarrow> VerifyNotFound
      | Inr sgs \<Rightarrow>
          let results = verificationResults verify sgs;
              valid = length (filter vr_isValid results);
              fullyValid = (valid = length sgs)
          in VerifyOk \<lparr>rep_documentHash = docHash, isFullyValid = fullyValid,
                       validSignatures = valid, totalSigners = length sgs,
                       rep_verificationResults = results\<rparr>)"

text \<open>The handler with the service reading the ledger \<open>s\<close>.\<close>

definition verifyRoute :: "ledger \<Rightarrow> string \<Rightarrow> verifyResponse" where
  "verifyRoute s docHash =
     verifyHandler (getRequiredSigners s docHash)
       (\<lambda>signer. Returned (verifySignature s docHash signer)) docHash"

subsection \<open>The sign route\<close>

record signReport =
  sr_signer :: address
  sr_ipfsHash :: "string option"
  isDocumentComplete :: bool

datatype signResponse =
  SignNotFound                  \<comment> \<open>status 404, "Document not found"\<close>
| SignForbidden                 \<comment> \<open>status 403, "Not authorized to sign this document"\<close>
| SignConflict nat              \<comment> \<open>status 409, with \<^verbatim>\<open>signedAt\<close>\<close>
| SignFailed failure            \<comment> \<open>status 500, "Failed to sign document on blockchain"\<close>
| SignOk signReport             \<comment> \<open>status 200\<close>

text \<open>
  The handler of \<^verbatim>\<open>POST /:documentHash/sign\<close>. \<open>wallet\<close> is the service's wallet address,
  \<open>now\<close> the time of the block that takes the transaction, \<open>signerAddress\<close> is
  \<^verbatim>\<open>req.user.address\<close>, the identity the authentication middleware accepted. \<open>upload\<close>
  is the outcome of the metadata upload: \<open>None\<close> when the request carries no metadata,
  \<open>Some (Inr h)\<close> when the upload gave the hash \<open>h\<close>, \<open>Some (Inl f)\<close> when it failed or
  threw. The comparison of two addresses after \<^verbatim>\<open>toLowerCase()\<close> is equality of the
  addresses. The response fields \<^verbatim>\<open>transactionHash\<close>, \<^verbatim>\<open>blockNumber\<close>, \<^verbatim>\<open>signedAt\<close> and
  \<^verbatim>\<open>signingProgress\<close> are left out. The result is the response and the ledger after the
  request.
\<close>

definition signRoute ::
  "address \<Rightarrow> uint256 \<Rightarrow> ledger \<Rightarrow> address \<Rightarrow> string \<Rightarrow> (failure + string) option
     \<Rightarrow> signResponse \<times> ledger" where
  "signRoute wallet now s signerAddress docHash upload =
     (case getRequiredSigners s docHash of
        Inl _ \<Rightarrow> (SignNotFound, s)
      | Inr sgs \<Rightarrow>
          if \<not> list_ex (\<lambda>signer. signer = signerAddress) sgs then (SignForbidden, s)
          else
            (case getSignatureStatus s docHash signerAddress of
               Inr (True, ts, _) \<Rightarrow> (SignConflict ts, s)
             | _ \<Rightarrow>
                 let ipfs = (case upload of Some (Inr h) \<Rightarrow> h | _ \<Rightarrow> '''')
                 in (case service_signDocument wallet now s docHash ipfs of
                       (Inl f, s') \<Rightarrow> (SignFailed f, s')
                     | (Inr _, s') \<Rightarrow>
                         (SignOk \<lparr>sr_signer = signerAddress,
                                  sr_ipfsHash = (if ipfs = '''' then None else Some ipfs),
                                  isDocumentComplete =
                                    (case isDocumentFullySigned s' docHash of
                                       Inr b \<Rightarrow> b | Inl _ \<Rightarrow> False)\<rparr>, s'))))"

section \<open>Properties of the contract\<close>

lemma authorizedScan_drop: "authorizedScan sgs sender i \<longleftrightarrow> sender \<in> set (drop i sgs)"
proof (induction sgs sender i rule: authorizedScan.induct)
  case (1 sgs sender i)
  show ?case
  proof (cases "i < length sgs")
    case True
    then have d: "drop i sgs = sgs ! i # drop (Suc i) sgs"
      by (simp add: Cons_nth_drop_Suc)
    show ?thesis
      using True "1.IH" by (subst authorizedScan.simps) (auto simp: d)
  next
    case False
    then show ?thesis by (subst authorizedScan.simps) simp
  qed
qed

lemma authorizedScan_iff: "authorizedScan sgs sender 0 \<longleftrightarrow> sender \<in> set sgs"
  by (simp add: authorizedScan_drop)

lemma scenarioH_doc:
  "documents scenarioH ''H'' = \<lparr>documentHash = ''H'', signers = [10, 11], timestamp = 1000,
     isActive = True, signatures = (\<lambda>_. zeroSignature)\<rparr>"
  by (simp add: scenarioH_def step_def commit_def createDocument_def deployed_def
      zeroDocument_def)

lemma scenarioH_exists: "documentExists scenarioH ''H''"
  by (simp add: documentExists_def scenarioH_doc)

text \<open>
  C1. \<^verbatim>\<open>signDocument\<close> by caller \<open>c\<close> fails exactly when the document does not exist, is
  not active, \<open>c\<close> is not an element of the signers sequence (the loop finds \<open>c\<close> exactly
  when it is an element), or \<open>c\<close> has already signed; the reason is that of the first
  failing check. On success the storage differs only in the signature of \<open>(docHash, c)\<close>,
  which is signed with the block time and the given reference, and in the event log; a
  failed call leaves the whole ledger as it was.
\<close>

theorem signDocument_spec:
  "((\<exists>e. signDocument s c now docHash ref = Inl e) \<longleftrightarrow>
      (\<not> documentExists s docHash \<or> \<not> isActive (documents s docHash)
       \<or> c \<notin> set (signers (documents s docHash))
       \<or> sig_signed (signatures (documents s docHash) c)))
   \<and> (authorizedScan (signers (documents s docHash)) c 0 \<longleftrightarrow>
        c \<in> set (signers (documents s docHash)))
   \<and> signDocument s c now docHash ref \<noteq> Inl DocumentAlreadyExists
   \<and> signDocument s c now docHash ref \<noteq> Inl MustHaveAtLeastOneSigner
   \<and> (signDocument s c now docHash ref = Inl DocumentDoesNotExist \<longleftrightarrow>
        \<not> documentExists s docHash)
   \<and> (signDocument s c now docHash ref = Inl DocumentIsNotActive \<longleftrightarrow>
        documentExists s docHash \<and> \<not> isActive (documents s docHash))
   \<and> (signDocument s c now docHash ref = Inl NotAuthorizedToSign \<longleftrightarrow>
        documentExists s docHash \<and> isActive (documents s docHash)
        \<and> c \<notin> set (signers (documents s docHash)))
   \<and> (signDocument s c now docHash ref = Inl AlreadySigned \<longleftrightarrow>
        documentExists s docHash \<and> isActive (documents s docHash)
        \<and> c \<in> set (signers (documents s docHash))
        \<and> sig_signed (signatures (documents s docHash) c))
   \<and> (\<forall>s'. signDocument s c now docHash ref = Inr s' \<longrightarrow>
        signatures (documents s' docHash) c =
          \<lparr>sig_signed = True, sig_timestamp = now, ipfsHash = ref\<rparr>
        \<and> s' = s\<lparr>documents := (documents s)(docHash := (documents s docHash)
                    \<lparr>signatures := (signatures (documents s docHash))(c :=
                       \<lparr>sig_signed = True, sig_timestamp = now, ipfsHash = ref\<rparr>)\<rparr>),
                  events := events s @ [DocumentSigned docHash c]\<rparr>)
   \<and> (\<forall>e. signDocument s c now docHash ref = Inl e \<longrightarrow>
        step s \<lparr>msg_sender = c, block_timestamp = now,
                tx_call = SignDocument docHash ref\<rparr> = s)"
  by (auto simp: signDocument_def documentActive_def authorizedScan_iff Let_def
        step_def commit_def)

theorem signDocument_spec_witness:
  "(\<exists>s'. signDocument scenarioH 10 2000 ''H'' ''Qm'' = Inr s'
         \<and> signatures (documents s' ''H'') 10 =
             \<lparr>sig_signed = True, sig_timestamp = 2000, ipfsHash = ''Qm''\<rparr>)
   \<and> (\<exists>e. signDocument scenarioH 12 2000 ''H'' ''Qm'' = Inl e)
   \<and> step scenarioH \<lparr>msg_sender = 12, block_timestamp = 2000,
         tx_call = SignDocument ''H'' ''Qm''\<rparr> = scenarioH"
proof -
  note a = signDocument_spec [of scenarioH 10 2000 "''H''" "''Qm''"]
  note b = signDocument_spec [of scenarioH 12 2000 "''H''" "''Qm''"]
  from a have "\<not> (\<exists>e. signDocument scenarioH 10 2000 ''H'' ''Qm'' = Inl e)"
    by (simp add: scenarioH_exists scenarioH_doc zeroSignature_def)
  then obtain s' where ok: "signDocument scenarioH 10 2000 ''H'' ''Qm'' = Inr s'"
    by (cases "signDocument scenarioH 10 2000 ''H'' ''Qm''") auto
  with a have "signatures (documents s' ''H'') 10 =
             \<lparr>sig_signed = True, sig_timestamp = 2000, ipfsHash = ''Qm''\<rparr>"
    by blast
  moreover from b have f: "\<exists>e. signDocument scenarioH 12 2000 ''H'' ''Qm'' = Inl e"
    by (simp add: scenarioH_exists scenarioH_doc zeroSignature_def)
  moreover from b f have "step scenarioH \<lparr>msg_sender = 12, block_timestamp = 2000,
         tx_call = SignDocument ''H'' ''Qm''\<rparr> = scenarioH"
    by blast
  ultimately show ?thesis using ok by blast
qed


subsection \<open>What one transaction preserves\<close>

lemma step_timestamp:
  "documentExists s h \<Longrightarrow>
   timestamp (documents (step s t) h) = timestamp (documents s h)"
  by (cases "tx_call t")
     (auto simp: step_def commit_def createDocument_def signDocument_def
        revokeDocument_def documentExists_def Let_def)

lemma step_signers:
  "documentExists s h \<Longrightarrow> signers (documents (step s t) h) = signers (documents s h)"
  by (cases "tx_call t")
     (auto simp: step_def commit_def createDocument_def signDocument_def
        revokeDocument_def documentExists_def Let_def)

lemma step_inactive:
  "documentExists s h \<Longrightarrow> \<not> isActive (documents s h) \<Longrightarrow>
   \<not> isActive (documents (step s t) h)"
  by (cases "tx_call t")
     (auto simp: step_def commit_def createDocument_def signDocument_def
        revokeDocument_def documentExists_def Let_def)

lemma step_signed:
  "sig_signed (signatures (documents s h) a) \<Longrightarrow>
   signatures (documents (step s t) h) a = signatures (documents s h) a"
  by (cases "tx_call t")
     (auto simp: step_def commit_def createDocument_def signDocument_def
        revokeDocument_def Let_def)

lemma run_Nil [simp]: "run s [] = s"
  by (simp add: run_def)

lemma run_Cons [simp]: "run s (t # ts) = run (step s t) ts"
  by (simp add: run_def)

lemma run_exists:
  "documentExists s h \<Longrightarrow> documentExists (run s ts) h"
proof (induction ts arbitrary: s)
  case Nil
  then show ?case by simp
next
  case (Cons t ts)
  from Cons.prems have "documentExists (step s t) h"
    by (simp add: documentExists_def step_timestamp)
  then show ?case by (simp add: Cons.IH)
qed

lemma run_signers:
  "documentExists s h \<Longrightarrow> signers (documents (run s ts) h) = signers (documents s h)"
proof (induction ts arbitrary: s)
  case Nil
  then show ?case by simp
next
  case (Cons t ts)
  from Cons.prems have "documentExists (step s t) h"
    by (simp add: documentExists_def step_timestamp)
  then show ?case using Cons.prems by (simp add: Cons.IH step_signers)
qed

lemma run_inactive:
  "documentExists s h \<Longrightarrow> \<not> isActive (documents s h) \<Longrightarrow>
   \<not> isActive (documents (run s ts) h)"
proof (induction ts arbitrary: s)
  case Nil
  then show ?case by simp
next
  case (Cons t ts)
  from Cons.prems have "documentExists (step s t) h"
    by (simp add: documentExists_def step_timestamp)
  moreover from Cons.prems have "\<not> isActive (documents (step s t) h)"
    by (rule step_inactive)
  ultimately show ?case by (simp add: Cons.IH)
qed

lemma run_signed:
  "sig_signed (signatures (documents s h) a) \<Longrightarrow>
   signatures (documents (run s ts) h) a = signatures (documents s h) a"
proof (induction ts arbitrary: s)
  case Nil
  then show ?case by simp
next
  case (Cons t ts)
  have eq: "signatures (documents (step s t) h) a = signatures (documents s h) a"
    using Cons.prems by (rule step_signed)
  with Cons.prems have "sig_signed (signatures (documents (step s t) h) a)"
    by simp
  then show ?case using eq by (simp add: Cons.IH)
qed

subsection \<open>Creation\<close>

lemma documentExists_iff: "documentExists s h \<longleftrightarrow> timestamp (documents s h) \<noteq> 0"
  by (simp add: documentExists_def word_neq_0_conv)

lemma createDocument_exists:
  "createDocument s c now h sgs = Inr s' \<Longrightarrow> 0 < now \<Longrightarrow> documentExists s' h"
  by (auto simp: createDocument_def documentExists_def Let_def split: if_splits)

text \<open>
  C2. \<^verbatim>\<open>createDocument\<close> fails when the document already exists or when the signers
  are empty. Otherwise it succeeds and stores the signers, the block time and
  \<open>isActive = True\<close> under the identifier, leaves every other document as it is,
  and appends the identifier to the caller's list, the one \<^verbatim>\<open>getUserDocuments\<close> returns.
  After a creation in a block whose time is not zero, which every block that carries a
  transaction has, \<^verbatim>\<open>createDocument\<close> for the same identifier fails with "Document
  already exists", whoever calls it and whatever transactions came in between.
\<close>

theorem createDocument_spec:
  "(documentExists s h \<longrightarrow> createDocument s c now h sgs = Inl DocumentAlreadyExists)
   \<and> (sgs = [] \<longrightarrow> (\<exists>e. createDocument s c now h sgs = Inl e))
   \<and> (\<not> documentExists s h \<and> sgs \<noteq> [] \<longrightarrow>
        (\<exists>s'. createDocument s c now h sgs = Inr s'
          \<and> documents s' h = (documents s h)\<lparr>documentHash := h, signers := sgs,
                                 timestamp := now, isActive := True\<rparr>
          \<and> (\<forall>h'. h' \<noteq> h \<longrightarrow> documents s' h' = documents s h')
          \<and> (\<exists>xs. getUserDocuments s c = Inr xs \<and> getUserDocuments s' c = Inr (xs @ [h]))
          \<and> (\<forall>u. u \<noteq> c \<longrightarrow> getUserDocuments s' u = getUserDocuments s u)
          \<and> (0 < now \<longrightarrow>
               (\<forall>ts c' now' sgs'.
                  createDocument (run s' ts) c' now' h sgs' = Inl DocumentAlreadyExists))))"
proof (intro conjI impI)
  assume "documentExists s h"
  then show "createDocument s c now h sgs = Inl DocumentAlreadyExists"
    by (simp add: createDocument_def documentExists_iff)
next
  assume "sgs = []"
  then show "\<exists>e. createDocument s c now h sgs = Inl e"
    by (simp add: createDocument_def)
next
  assume a: "\<not> documentExists s h \<and> sgs \<noteq> []"
  define s' where "s' = s\<lparr>documents := (documents s)(h := (documents s h)
        \<lparr>documentHash := h, signers := sgs, timestamp := now, isActive := True\<rparr>),
      userDocuments := (userDocuments s)(c := userDocuments s c @ [h]),
      events := events s @ [DocumentCreated h c]\<rparr>"
  from a have ok: "createDocument s c now h sgs = Inr s'"
    by (simp add: createDocument_def documentExists_iff s'_def)
  have again: "createDocument (run s' ts) c' now' h sgs' = Inl DocumentAlreadyExists"
    if "0 < now" for ts c' now' sgs'
  proof -
    from ok that have "documentExists s' h" by (rule createDocument_exists)
    then have "documentExists (run s' ts) h" by (rule run_exists)
    then show ?thesis by (simp add: createDocument_def documentExists_iff)
  qed
  show "\<exists>s'. createDocument s c now h sgs = Inr s'
          \<and> documents s' h = (documents s h)\<lparr>documentHash := h, signers := sgs,
                                 timestamp := now, isActive := True\<rparr>
          \<and> (\<forall>h'. h' \<noteq> h \<longrightarrow> documents s' h' = documents s h')
          \<and> (\<exists>xs. getUserDocuments s c = Inr xs \<and> getUserDocuments s' c = Inr (xs @ [h]))
          \<and> (\<forall>u. u \<noteq> c \<longrightarrow> getUserDocuments s' u = getUserDocuments s u)
          \<and> (0 < now \<longrightarrow>
               (\<forall>ts c' now' sgs'.
                  createDocument (run s' ts) c' now' h sgs' = Inl DocumentAlreadyExists))"
    using ok again by (intro exI [of _ s']) (simp add: s'_def getUserDocuments_def)
qed

lemma deployed_not_exists: "\<not> documentExists deployed h"
  by (simp add: documentExists_def deployed_def zeroDocument_def)

theorem createDocument_spec_witness:
  "(\<exists>s'. createDocument deployed 1 1000 ''H'' [10, 11] = Inr s'
      \<and> signers (documents s' ''H'') = [10, 11] \<and> isActive (documents s' ''H'')
      \<and> getUserDocuments s' 1 = Inr [''H'']
      \<and> createDocument (run s' [\<lparr>msg_sender = 10, block_timestamp = 2000,
                                   tx_call = SignDocument ''H'' ''Qm''\<rparr>]) 2 3000 ''H'' [12]
          = Inl DocumentAlreadyExists)
   \<and> createDocument scenarioH 2 3000 ''H'' [12] = Inl DocumentAlreadyExists
   \<and> (\<exists>e. createDocument deployed 1 1000 ''H'' [] = Inl e)"
proof -
  note a = createDocument_spec [of deployed "''H''" 1 1000 "[10, 11]"]
  note b = createDocument_spec [of scenarioH "''H''" 2 3000 "[12]"]
  note c = createDocument_spec [of deployed "''H''" 1 1000 "[]"]
  have pos: "(0::uint256) < 1000" by simp
  from a pos obtain s' where s': "createDocument deployed 1 1000 ''H'' [10, 11] = Inr s'"
      "documents s' ''H'' = (documents deployed ''H'')\<lparr>documentHash := ''H'',
         signers := [10, 11], timestamp := 1000, isActive := True\<rparr>"
      "\<exists>xs. getUserDocuments deployed 1 = Inr xs \<and> getUserDocuments s' 1 = Inr (xs @ [''H''])"
      "\<forall>ts c' now' sgs'.
         createDocument (run s' ts) c' now' ''H'' sgs' = Inl DocumentAlreadyExists"
    using deployed_not_exists [of "''H''"] by auto
  from s'(3) have "getUserDocuments s' 1 = Inr [''H'']"
    by (simp add: getUserDocuments_def deployed_def)
  moreover from b have "createDocument scenarioH 2 3000 ''H'' [12] = Inl DocumentAlreadyExists"
    by (simp add: scenarioH_exists)
  moreover from c have "\<exists>e. createDocument deployed 1 1000 ''H'' [] = Inl e"
    by simp
  moreover from s'(4) have "createDocument (run s' [\<lparr>msg_sender = 10, block_timestamp = 2000,
      tx_call = SignDocument ''H'' ''Qm''\<rparr>]) 2 3000 ''H'' [12] = Inl DocumentAlreadyExists"
    by blast
  moreover from s'(2) have "signers (documents s' ''H'') = [10, 11] \<and> isActive (documents s' ''H'')"
    by simp
  ultimately show ?thesis using s'(1) by blast
qed

subsection \<open>Signing twice\<close>

text \<open>
  C4. For a declared signer \<open>c\<close> of an existing, active document that \<open>c\<close> has not yet
  signed, the first \<^verbatim>\<open>signDocument\<close> succeeds, the second one by \<open>c\<close> for the same
  document fails with "Already signed", whatever its block time and reference, and the
  ledger after both transactions is the ledger after the first.
\<close>

theorem signDocument_twice:
  assumes "documentExists s h" and "isActive (documents s h)"
    and "c \<in> set (signers (documents s h))"
    and "\<not> sig_signed (signatures (documents s h) c)"
  shows "\<exists>s1. signDocument s c now h ref = Inr s1
           \<and> signDocument s1 c now' h ref' = Inl AlreadySigned
           \<and> run s [\<lparr>msg_sender = c, block_timestamp = now, tx_call = SignDocument h ref\<rparr>]
               = s1
           \<and> run s [\<lparr>msg_sender = c, block_timestamp = now, tx_call = SignDocument h ref\<rparr>,
                     \<lparr>msg_sender = c, block_timestamp = now', tx_call = SignDocument h ref'\<rparr>]
               = s1"
  using assms
  by (simp add: signDocument_def documentActive_def documentExists_def authorizedScan_iff
        step_def commit_def Let_def)

theorem signDocument_twice_witness:
  "\<exists>s1. signDocument scenarioH 10 2000 ''H'' ''Qm'' = Inr s1
     \<and> signDocument s1 10 3000 ''H'' ''Qx'' = Inl AlreadySigned
     \<and> run scenarioH
          [\<lparr>msg_sender = 10, block_timestamp = 2000, tx_call = SignDocument ''H'' ''Qm''\<rparr>]
         = s1
     \<and> run scenarioH
          [\<lparr>msg_sender = 10, block_timestamp = 2000, tx_call = SignDocument ''H'' ''Qm''\<rparr>,
           \<lparr>msg_sender = 10, block_timestamp = 3000, tx_call = SignDocument ''H'' ''Qx''\<rparr>]
         = s1"
  by (rule signDocument_twice)
     (simp_all add: scenarioH_exists scenarioH_doc zeroSignature_def)

subsection \<open>Completion\<close>

lemma fullySignedScan_drop:
  "fullySignedScan doc i \<longleftrightarrow>
     (\<forall>a \<in> set (drop i (signers doc)). sig_signed (signatures doc a))"
proof (induction doc i rule: fullySignedScan.induct)
  case (1 doc i)
  show ?case
  proof (cases "i < length (signers doc)")
    case True
    then have d: "drop i (signers doc) = signers doc ! i # drop (Suc i) (signers doc)"
      by (simp add: Cons_nth_drop_Suc)
    show ?thesis
      using True "1.IH" by (subst fullySignedScan.simps) (auto simp: d)
  next
    case False
    then show ?thesis by (subst fullySignedScan.simps) simp
  qed
qed

text \<open>
  C5. For an existing document \<^verbatim>\<open>isFullySigned\<close> returns whether every entry of the
  signers sequence has a signature with \<open>signed = True\<close>; for an identifier that does
  not exist it fails with "Document does not exist".
\<close>

theorem isFullySigned_spec:
  "(documentExists s h \<longrightarrow>
      isFullySigned s h =
        Inr (\<forall>a \<in> set (signers (documents s h)). sig_signed (signatures (documents s h) a)))
   \<and> (\<not> documentExists s h \<longrightarrow> isFullySigned s h = Inl DocumentDoesNotExist)"
  by (simp add: isFullySigned_def fullySignedScan_drop)

theorem isFullySigned_spec_witness:
  "isFullySigned scenarioH ''H'' = Inr False
   \<and> isFullySigned
        (run scenarioH
          [\<lparr>msg_sender = 10, block_timestamp = 2000, tx_call = SignDocument ''H'' ''Qm''\<rparr>])
        ''H'' = Inr False
   \<and> isFullySigned
        (run scenarioH
          [\<lparr>msg_sender = 10, block_timestamp = 2000, tx_call = SignDocument ''H'' ''Qm''\<rparr>,
           \<lparr>msg_sender = 11, block_timestamp = 2001, tx_call = SignDocument ''H'' ''''\<rparr>])
        ''H'' = Inr True
   \<and> isFullySigned scenarioH ''G'' = Inl DocumentDoesNotExist"
proof -
  let ?t1 = "\<lparr>msg_sender = 10, block_timestamp = 2000, tx_call = SignDocument ''H'' ''Qm''\<rparr>"
  let ?t2 = "\<lparr>msg_sender = 11, block_timestamp = 2001, tx_call = SignDocument ''H'' ''''\<rparr>"
  have s1: "documents (run scenarioH [?t1]) ''H'' =
      \<lparr>documentHash = ''H'', signers = [10, 11], timestamp = 1000, isActive = True,
       signatures = (\<lambda>_. zeroSignature)(10 :=
          \<lparr>sig_signed = True, sig_timestamp = 2000, ipfsHash = ''Qm''\<rparr>)\<rparr>"
    by (simp add: step_def commit_def signDocument_def scenarioH_exists scenarioH_doc
          documentActive_def authorizedScan_iff zeroSignature_def)
  have s2: "documents (run scenarioH [?t1, ?t2]) ''H'' =
      \<lparr>documentHash = ''H'', signers = [10, 11], timestamp = 1000, isActive = True,
       signatures = (\<lambda>_. zeroSignature)(10 :=
          \<lparr>sig_signed = True, sig_timestamp = 2000, ipfsHash = ''Qm''\<rparr>,
          11 := \<lparr>sig_signed = True, sig_timestamp = 2001, ipfsHash = ''''\<rparr>)\<rparr>"
    using s1
    by (simp add: step_def [of "step scenarioH ?t1"] commit_def signDocument_def
          documentExists_def documentActive_def authorizedScan_iff zeroSignature_def)
  have g: "\<not> documentExists scenarioH ''G''"
    by (simp add: documentExists_def scenarioH_def step_def commit_def createDocument_def
          deployed_def zeroDocument_def)
  have "isFullySigned scenarioH ''H'' = Inr False"
    using isFullySigned_spec [of scenarioH "''H''"]
    by (auto simp: scenarioH_exists scenarioH_doc zeroSignature_def)
  moreover have "isFullySigned (run scenarioH [?t1]) ''H'' = Inr False"
    using isFullySigned_spec [of "run scenarioH [?t1]" "''H''"] s1
    by (auto simp: documentExists_def zeroSignature_def)
  moreover have "isFullySigned (run scenarioH [?t1, ?t2]) ''H'' = Inr True"
    using isFullySigned_spec [of "run scenarioH [?t1, ?t2]" "''H''"] s2
    by (auto simp: documentExists_def zeroSignature_def)
  moreover have "isFullySigned scenarioH ''G'' = Inl DocumentDoesNotExist"
    using isFullySigned_spec [of scenarioH "''G''"] g by simp
  ultimately show ?thesis by blast
qed

subsection \<open>Revocation\<close>

lemma scenarioSigned_doc:
  "documents scenarioSigned ''H'' =
     \<lparr>documentHash = ''H'', signers = [10, 11], timestamp = 1000, isActive = True,
      signatures = (\<lambda>_. zeroSignature)(10 :=
        \<lparr>sig_signed = True, sig_timestamp = 2000, ipfsHash = ''Qm''\<rparr>)\<rparr>"
  by (simp add: scenarioSigned_def step_def commit_def signDocument_def scenarioH_exists
        scenarioH_doc documentActive_def authorizedScan_iff zeroSignature_def)

lemma scenarioSigned_exists: "documentExists scenarioSigned ''H''"
  by (simp add: documentExists_def scenarioSigned_doc)

lemma revokeDocument_exists:
  "revokeDocument s c now h = Inr s' \<Longrightarrow> documentExists s' h \<and> \<not> isActive (documents s' h)"
  by (auto simp: revokeDocument_def documentExists_def split: if_splits)

lemma signDocument_inactive:
  "documentExists s h \<Longrightarrow> \<not> isActive (documents s h) \<Longrightarrow>
   signDocument s c now h ref = Inl DocumentIsNotActive"
  by (simp add: signDocument_def documentActive_def)

text \<open>
  C6. \<^verbatim>\<open>revokeDocument\<close> fails exactly when the document does not exist; no check
  involves the caller. On success it writes \<open>isActive = False\<close> and nothing else apart
  from the event, so the signers and every signature of the document are what they were
  and \<^verbatim>\<open>getSignature\<close> and \<^verbatim>\<open>getDocumentSigners\<close> still return them; from then on, after
  any further transactions, every \<^verbatim>\<open>signDocument\<close> for the document fails with "Document
  is not active".
\<close>

theorem revokeDocument_spec:
  "((\<exists>e. revokeDocument s c now h = Inl e) \<longleftrightarrow> \<not> documentExists s h)
   \<and> (\<forall>s'. revokeDocument s c now h = Inr s' \<longrightarrow>
        \<not> isActive (documents s' h)
        \<and> s' = s\<lparr>documents := (documents s)(h := (documents s h)\<lparr>isActive := False\<rparr>),
                  events := events s @ [DocumentRevoked h c]\<rparr>
        \<and> (\<forall>ts c' now' ref.
              signDocument (run s' ts) c' now' h ref = Inl DocumentIsNotActive)
        \<and> signers (documents s' h) = signers (documents s h)
        \<and> signatures (documents s' h) = signatures (documents s h)
        \<and> getDocumentSigners s' h = Inr (signers (documents s h))
        \<and> (\<forall>a. getSignature s' h a =
                  Inr (sig_signed (signatures (documents s h) a),
                       sig_timestamp (signatures (documents s h) a),
                       ipfsHash (signatures (documents s h) a))))"
proof (intro conjI allI impI)
  show "(\<exists>e. revokeDocument s c now h = Inl e) \<longleftrightarrow> \<not> documentExists s h"
    by (simp add: revokeDocument_def)
next
  fix s' ts c' now' ref
  assume r: "revokeDocument s c now h = Inr s'"
  then have "documentExists s' h" and "\<not> isActive (documents s' h)"
    by (simp_all add: revokeDocument_exists)
  then have "documentExists (run s' ts) h" and "\<not> isActive (documents (run s' ts) h)"
    by (simp_all add: run_exists run_inactive)
  then show "signDocument (run s' ts) c' now' h ref = Inl DocumentIsNotActive"
    by (rule signDocument_inactive)
qed (auto simp: revokeDocument_def getSignature_def getDocumentSigners_def
       documentExists_def Let_def split: if_splits)

theorem revokeDocument_spec_witness:
  "(\<exists>s'. revokeDocument scenarioSigned 99 5000 ''H'' = Inr s'
      \<and> \<not> isActive (documents s' ''H'')
      \<and> signDocument s' 11 6000 ''H'' '''' = Inl DocumentIsNotActive
      \<and> getDocumentSigners s' ''H'' = Inr [10, 11]
      \<and> getSignature s' ''H'' 10 = Inr (True, 2000, ''Qm''))
   \<and> (\<exists>e. revokeDocument scenarioSigned 99 5000 ''G'' = Inl e)"
proof -
  note a = revokeDocument_spec [of scenarioSigned 99 5000 "''H''"]
  note b = revokeDocument_spec [of scenarioSigned 99 5000 "''G''"]
  have g: "\<not> documentExists scenarioSigned ''G''"
    by (simp add: documentExists_def scenarioSigned_def scenarioH_def step_def commit_def
          createDocument_def signDocument_def deployed_def zeroDocument_def
          documentActive_def authorizedScan_iff zeroSignature_def)
  from a have "\<not> (\<exists>e. revokeDocument scenarioSigned 99 5000 ''H'' = Inl e)"
    by (simp add: scenarioSigned_exists)
  then obtain s' where ok: "revokeDocument scenarioSigned 99 5000 ''H'' = Inr s'"
    by (cases "revokeDocument scenarioSigned 99 5000 ''H''") auto
  with a have f: "\<not> isActive (documents s' ''H'')"
      "\<forall>ts c' now' ref. signDocument (run s' ts) c' now' ''H'' ref = Inl DocumentIsNotActive"
      "getDocumentSigners s' ''H'' = Inr (signers (documents scenarioSigned ''H''))"
      "getSignature s' ''H'' 10 =
         Inr (sig_signed (signatures (documents scenarioSigned ''H'') 10),
              sig_timestamp (signatures (documents scenarioSigned ''H'') 10),
              ipfsHash (signatures (documents scenarioSigned ''H'') 10))"
    by blast+
  from f(2) have "signDocument (run s' []) 11 6000 ''H'' '''' = Inl DocumentIsNotActive"
    by blast
  then have "signDocument s' 11 6000 ''H'' '''' = Inl DocumentIsNotActive"
    by simp
  moreover from f(3) have "getDocumentSigners s' ''H'' = Inr [10, 11]"
    by (simp add: scenarioSigned_doc)
  moreover from f(4) have "getSignature s' ''H'' 10 = Inr (True, 2000, ''Qm'')"
    by (simp add: scenarioSigned_doc)
  moreover from b g have "\<exists>e. revokeDocument scenarioSigned 99 5000 ''G'' = Inl e"
    by simp
  ultimately show ?thesis using ok f(1) by blast
qed

subsection \<open>Verification\<close>

text \<open>
  C7. \<^verbatim>\<open>verifyDocumentSignature\<close> returns a triple on every input: for an identifier that
  does not exist the triple \<open>(False, 0, False)\<close>, for an existing document the signer's
  signed flag, the signer's signing time and the document's active flag.
\<close>

theorem verifyDocumentSignature_spec:
  "verifyDocumentSignature s h a =
     Inr (if documentExists s h
          then (sig_signed (signatures (documents s h) a),
                sig_timestamp (signatures (documents s h) a),
                isActive (documents s h))
          else (False, 0, False))"
  by (simp add: verifyDocumentSignature_def documentExists_def word_neq_0_conv Let_def)

theorem verifyDocumentSignature_spec_witness:
  "verifyDocumentSignature scenarioSigned ''H'' 10 = Inr (True, 2000, True)
   \<and> verifyDocumentSignature scenarioSigned ''H'' 11 = Inr (False, 0, True)
   \<and> verifyDocumentSignature deployed ''H'' 10 = Inr (False, 0, False)"
  using verifyDocumentSignature_spec [of scenarioSigned "''H''" 10]
    verifyDocumentSignature_spec [of scenarioSigned "''H''" 11]
    verifyDocumentSignature_spec [of deployed "''H''" 10]
  by (simp add: scenarioSigned_exists scenarioSigned_doc deployed_not_exists
        zeroSignature_def)

subsection \<open>Permanence of revocation\<close>

lemma scenarioRevoked_doc:
  "documents scenarioRevoked ''H'' =
     \<lparr>documentHash = ''H'', signers = [10, 11], timestamp = 1000, isActive = False,
      signatures = (\<lambda>_. zeroSignature)(10 :=
        \<lparr>sig_signed = True, sig_timestamp = 2000, ipfsHash = ''Qm''\<rparr>)\<rparr>"
  by (simp add: scenarioRevoked_def step_def commit_def revokeDocument_def
        scenarioSigned_exists scenarioSigned_doc)

lemma scenarioRevoked_exists: "documentExists scenarioRevoked ''H''"
  by (simp add: documentExists_def scenarioRevoked_doc)

lemma step_activates:
  "\<not> isActive (documents s h) \<Longrightarrow> isActive (documents (step s t) h) \<Longrightarrow>
   (\<exists>sgs. tx_call t = CreateDocument h sgs) \<and> \<not> documentExists s h"
  by (cases "tx_call t")
     (auto simp: step_def commit_def createDocument_def signDocument_def
        revokeDocument_def documentExists_def Let_def split: if_splits)

lemma step_deactivates:
  "isActive (documents s h) \<Longrightarrow> \<not> isActive (documents (step s t) h) \<Longrightarrow>
   tx_call t = RevokeDocument h"
  by (cases "tx_call t")
     (auto simp: step_def commit_def createDocument_def signDocument_def
        revokeDocument_def documentExists_def Let_def split: if_splits)

text \<open>
  C10. The active flag of an existing document that is \<open>False\<close> stays \<open>False\<close> under
  every sequence of transactions, in particular after a successful \<^verbatim>\<open>revokeDocument\<close>.
  A transaction that turns the flag from \<open>False\<close> to \<open>True\<close> is a \<^verbatim>\<open>createDocument\<close>
  for an identifier that does not exist yet, and one that turns it from \<open>True\<close> to
  \<open>False\<close> is a \<^verbatim>\<open>revokeDocument\<close>. Once the document exists, which a creation in a
  block with a time other than zero brings about, \<^verbatim>\<open>createDocument\<close> for it fails for
  ever.
\<close>

theorem isActive_never_restored:
  "(documentExists s h \<and> \<not> isActive (documents s h) \<longrightarrow>
      \<not> isActive (documents (run s ts) h))
   \<and> (\<forall>s'. revokeDocument s c now h = Inr s' \<longrightarrow> \<not> isActive (documents (run s' ts) h))
   \<and> (\<not> isActive (documents s h) \<and> isActive (documents (step s t) h) \<longrightarrow>
        (\<exists>sgs. tx_call t = CreateDocument h sgs) \<and> \<not> documentExists s h)
   \<and> (isActive (documents s h) \<and> \<not> isActive (documents (step s t) h) \<longrightarrow>
        tx_call t = RevokeDocument h)
   \<and> (documentExists s h \<longrightarrow>
        (\<forall>c' now' sgs'.
           createDocument (run s ts) c' now' h sgs' = Inl DocumentAlreadyExists))
   \<and> (\<forall>s' sgs. createDocument s c now h sgs = Inr s' \<and> 0 < now \<longrightarrow> documentExists s' h)"
proof (intro conjI allI impI)
  fix s'
  assume "revokeDocument s c now h = Inr s'"
  then have "documentExists s' h \<and> \<not> isActive (documents s' h)"
    by (rule revokeDocument_exists)
  then show "\<not> isActive (documents (run s' ts) h)"
    by (simp add: run_inactive)
next
  fix c' now' sgs'
  assume "documentExists s h"
  then have "documentExists (run s ts) h" by (rule run_exists)
  then show "createDocument (run s ts) c' now' h sgs' = Inl DocumentAlreadyExists"
    by (simp add: createDocument_def documentExists_iff)
qed (auto simp: run_inactive step_activates dest: step_deactivates createDocument_exists)

theorem isActive_never_restored_witness:
  "\<not> isActive (documents
        (run scenarioRevoked
           [\<lparr>msg_sender = 1, block_timestamp = 6000, tx_call = CreateDocument ''H'' [10]\<rparr>,
            \<lparr>msg_sender = 11, block_timestamp = 6001, tx_call = SignDocument ''H'' ''''\<rparr>])
        ''H'')
   \<and> (\<exists>s'. revokeDocument scenarioSigned 99 5000 ''H'' = Inr s'
         \<and> \<not> isActive (documents
              (run s' [\<lparr>msg_sender = 1, block_timestamp = 6000,
                         tx_call = CreateDocument ''H'' [10]\<rparr>]) ''H''))
   \<and> createDocument scenarioRevoked 1 6000 ''H'' [10] = Inl DocumentAlreadyExists
   \<and> isActive (documents (step deployed
        \<lparr>msg_sender = 1, block_timestamp = 1000, tx_call = CreateDocument ''H'' [10, 11]\<rparr>)
        ''H'')
   \<and> \<not> isActive (documents (step scenarioSigned
        \<lparr>msg_sender = 99, block_timestamp = 5000, tx_call = RevokeDocument ''H''\<rparr>) ''H'')
   \<and> (\<exists>s'. createDocument deployed 1 1000 ''H'' [10, 11] = Inr s' \<and> documentExists s' ''H'')"
proof -
  let ?c = "\<lparr>msg_sender = 1, block_timestamp = 6000, tx_call = CreateDocument ''H'' [10]\<rparr>"
  let ?g = "\<lparr>msg_sender = 11, block_timestamp = 6001, tx_call = SignDocument ''H'' ''''\<rparr>"
  let ?k = "\<lparr>msg_sender = 1, block_timestamp = 1000,
              tx_call = CreateDocument ''H'' [10, 11]\<rparr>"
  let ?r = "\<lparr>msg_sender = 99, block_timestamp = 5000, tx_call = RevokeDocument ''H''\<rparr>"
  have ok: "revokeDocument scenarioSigned 99 5000 ''H'' = Inr scenarioRevoked"
    by (simp add: scenarioRevoked_def step_def commit_def revokeDocument_def
          scenarioSigned_exists)
  have cr: "createDocument deployed 1 1000 ''H'' [10, 11] = Inr scenarioH"
    by (simp add: scenarioH_def step_def commit_def createDocument_def deployed_def
          zeroDocument_def)
  have "\<not> isActive (documents (run scenarioRevoked [?c, ?g]) ''H'')"
    using isActive_never_restored [where s = scenarioRevoked and h = "''H''" and ts = "[?c, ?g]" and c = 0 and now = 0
          and t = ?c]
    by (simp add: scenarioRevoked_exists scenarioRevoked_doc)
  moreover have "\<not> isActive (documents (run scenarioRevoked [?c]) ''H'')"
    using isActive_never_restored
        [where s = scenarioSigned and c = 99 and now = 5000 and h = "''H''" and ts = "[?c]"
          and t = ?c] ok
    by simp
  moreover have "createDocument scenarioRevoked 1 6000 ''H'' [10] = Inl DocumentAlreadyExists"
    using isActive_never_restored [where s = scenarioRevoked and h = "''H''" and ts = "[]" and c = 0 and now = 0
          and t = ?c]
    by (simp add: scenarioRevoked_exists)
  moreover have "isActive (documents (step deployed ?k) ''H'')"
      and "\<not> isActive (documents (step scenarioSigned ?r) ''H'')"
    using isActive_never_restored [where s = deployed and h = "''H''" and t = ?k and ts = "[]" and c = 0 and now = 0]
      isActive_never_restored [where s = scenarioSigned and h = "''H''" and t = ?r and ts = "[]" and c = 0
          and now = 0]
    by (simp_all add: scenarioH_def [symmetric] scenarioH_doc
          scenarioRevoked_def [symmetric] scenarioRevoked_doc)
  moreover have "documentExists scenarioH ''H''"
    using isActive_never_restored
        [where s = deployed and c = 1 and now = 1000 and h = "''H''" and ts = "[]" and t = ?k] cr
    by auto
  ultimately show ?thesis using ok cr by simp
qed

section \<open>Properties of the routes\<close>

subsection \<open>Aggregation in the verify route\<close>

lemma verificationResults_map:
  "verificationResults verify sgs = map (\<lambda>signer. verificationEntry signer (verify signer)) sgs"
  by (induction sgs) simp_all

lemma length_filter_all:
  "length (filter P xs) = length xs \<longleftrightarrow> (\<forall>x \<in> set xs. P x)"
proof (induction xs)
  case Nil
  then show ?case by simp
next
  case (Cons x xs)
  have le: "length (filter P xs) \<le> length xs" by (rule length_filter_le)
  show ?case
  proof (cases "P x")
    case True
    with Cons show ?thesis by simp
  next
    case False
    from le have "length (filter P xs) \<noteq> Suc (length xs)" by arith
    with False show ?thesis by simp
  qed
qed

lemma verificationEntry_signer: "vr_signer (verificationEntry signer a) = signer"
  by (cases "(signer, a)" rule: verificationEntry.cases) simp_all

text \<open>
  C8. When the signers are read, the verify handler answers with a report, whatever the
  outcomes of the per-signer reads are. The report has one entry per required signer, in
  order; \<open>isFullyValid\<close> holds exactly when the number of entries with \<open>isValid\<close> equals
  the number of required signers, which is when every entry is valid; and a read that
  throws or returns a failure is the entry of its signer with \<open>isValid = False\<close> and the
  error, while a read that succeeds is an entry with the flag it returned.
\<close>

theorem verifyHandler_aggregate:
  "\<exists>r. verifyHandler (Inr sgs) verify h = VerifyOk r
     \<and> validSignatures r = length (filter vr_isValid (rep_verificationResults r))
     \<and> totalSigners r = length sgs
     \<and> (isFullyValid r \<longleftrightarrow> validSignatures r = totalSigners r)
     \<and> (isFullyValid r \<longleftrightarrow> (\<forall>e \<in> set (rep_verificationResults r). vr_isValid e))
     \<and> length (rep_verificationResults r) = length sgs
     \<and> (\<forall>i < length sgs.
          vr_signer (rep_verificationResults r ! i) = sgs ! i
          \<and> (\<forall>f. verify (sgs ! i) = Threw f \<or> verify (sgs ! i) = Returned (Inl f) \<longrightarrow>
                rep_verificationResults r ! i =
                  \<lparr>vr_signer = sgs ! i, vr_isValid = False, vr_signedAt = 0,
                   vr_documentActive = False, vr_error = Some f\<rparr>)
          \<and> (\<forall>v n a. verify (sgs ! i) = Returned (Inr (v, n, a)) \<longrightarrow>
                rep_verificationResults r ! i =
                  \<lparr>vr_signer = sgs ! i, vr_isValid = v, vr_signedAt = n,
                   vr_documentActive = a, vr_error = None\<rparr>))"
proof -
  let ?res = "verificationResults verify sgs"
  let ?r = "\<lparr>rep_documentHash = h,
             isFullyValid = (length (filter vr_isValid ?res) = length sgs),
             validSignatures = length (filter vr_isValid ?res), totalSigners = length sgs,
             rep_verificationResults = ?res\<rparr>"
  have len: "length ?res = length sgs"
    by (simp add: verificationResults_map)
  have nth: "?res ! i = verificationEntry (sgs ! i) (verify (sgs ! i))"
    if "i < length sgs" for i
    using that by (simp add: verificationResults_map)
  have "verifyHandler (Inr sgs) verify h = VerifyOk ?r"
    by (simp add: verifyHandler_def Let_def)
  moreover have "isFullyValid ?r \<longleftrightarrow> (\<forall>e \<in> set (rep_verificationResults ?r). vr_isValid e)"
    using length_filter_all [of vr_isValid ?res] by (simp add: len)
  moreover have "\<forall>i < length sgs.
          vr_signer (rep_verificationResults ?r ! i) = sgs ! i
          \<and> (\<forall>f. verify (sgs ! i) = Threw f \<or> verify (sgs ! i) = Returned (Inl f) \<longrightarrow>
                rep_verificationResults ?r ! i =
                  \<lparr>vr_signer = sgs ! i, vr_isValid = False, vr_signedAt = 0,
                   vr_documentActive = False, vr_error = Some f\<rparr>)
          \<and> (\<forall>v n a. verify (sgs ! i) = Returned (Inr (v, n, a)) \<longrightarrow>
                rep_verificationResults ?r ! i =
                  \<lparr>vr_signer = sgs ! i, vr_isValid = v, vr_signedAt = n,
                   vr_documentActive = a, vr_error = None\<rparr>)"
    by (auto simp: nth verificationEntry_signer)
  ultimately show ?thesis
    by (intro exI [of _ ?r]) (simp add: len)
qed

theorem verifyHandler_aggregate_witness:
  "\<exists>r. verifyHandler (Inr [10, 11, 12])
          (\<lambda>a. if a = 10 then Returned (Inr (True, 2000, True))
               else if a = 11 then Threw (Unavailable ''timeout'')
               else Returned (Inl NumericOverflow)) ''H'' = VerifyOk r
     \<and> \<not> isFullyValid r \<and> validSignatures r = 1 \<and> totalSigners r = 3
     \<and> rep_verificationResults r ! 1 =
         \<lparr>vr_signer = 11, vr_isValid = False, vr_signedAt = 0,
          vr_documentActive = False, vr_error = Some (Unavailable ''timeout'')\<rparr>
     \<and> vr_isValid (rep_verificationResults r ! 0)"
proof -
  let ?v = "\<lambda>a::address. if a = 10 then Returned (Inr (True, 2000::nat, True))
               else if a = 11 then Threw (Unavailable ''timeout'')
               else Returned (Inl NumericOverflow)"
  from verifyHandler_aggregate [of "[10, 11, 12]" ?v "''H''"]
  obtain r where r: "verifyHandler (Inr [10, 11, 12]) ?v ''H'' = VerifyOk r"
      "validSignatures r = length (filter vr_isValid (rep_verificationResults r))"
      "totalSigners r = length [10::address, 11, 12]"
      "isFullyValid r \<longleftrightarrow> validSignatures r = totalSigners r"
      "\<forall>i < length [10::address, 11, 12].
          vr_signer (rep_verificationResults r ! i) = [10, 11, 12] ! i
          \<and> (\<forall>f. ?v ([10, 11, 12] ! i) = Threw f \<or> ?v ([10, 11, 12] ! i) = Returned (Inl f) \<longrightarrow>
                rep_verificationResults r ! i =
                  \<lparr>vr_signer = [10, 11, 12] ! i, vr_isValid = False, vr_signedAt = 0,
                   vr_documentActive = False, vr_error = Some f\<rparr>)
          \<and> (\<forall>v n a. ?v ([10, 11, 12] ! i) = Returned (Inr (v, n, a)) \<longrightarrow>
                rep_verificationResults r ! i =
                  \<lparr>vr_signer = [10, 11, 12] ! i, vr_isValid = v, vr_signedAt = n,
                   vr_documentActive = a, vr_error = None\<rparr>)"
    by blast
  from r(5) have e1: "rep_verificationResults r ! 1 =
         \<lparr>vr_signer = 11, vr_isValid = False, vr_signedAt = 0,
          vr_documentActive = False, vr_error = Some (Unavailable ''timeout'')\<rparr>"
    by simp
  from r(5) have e0: "vr_isValid (rep_verificationResults r ! 0)"
    by simp
  from r(1) have v: "validSignatures r = 1"
    by (auto simp: verifyHandler_def Let_def)
  with r(3,4) have "\<not> isFullyValid r" by simp
  with r(1,3) e1 e0 v show ?thesis by simp
qed

subsection \<open>Verification of a revoked document\<close>

lemma signDocument_result:
  "signDocument s c now h ref = Inr s1 \<Longrightarrow>
   documentExists s1 h \<and>
   signatures (documents s1 h) c = \<lparr>sig_signed = True, sig_timestamp = now, ipfsHash = ref\<rparr>"
  by (auto simp: signDocument_def documentExists_def Let_def split: if_splits)

lemma revokeDocument_signatures:
  "revokeDocument s c now h = Inr s' \<Longrightarrow>
   signatures (documents s' h) = signatures (documents s h)"
  by (auto simp: revokeDocument_def split: if_splits)

lemma signDocument_declared:
  "signDocument s c now h ref = Inr s1 \<Longrightarrow>
   c \<in> set (signers (documents s1 h))"
  by (auto simp: signDocument_def authorizedScan_iff Let_def split: if_splits)

lemma revokeDocument_signers:
  "revokeDocument s c now h = Inr s' \<Longrightarrow>
   signers (documents s' h) = signers (documents s h)"
  by (auto simp: revokeDocument_def split: if_splits)

text \<open>
  The report of the verify route for an existing document all of whose signers have
  signed: one valid entry per signer, in the order of the signers sequence, each with
  the document's active flag.
\<close>

lemma verifyRoute_all_signed:
  assumes ex: "documentExists s h"
    and all: "\<forall>a \<in> set (signers (documents s h)).
                sig_signed (signatures (documents s h) a)
                \<and> unat (sig_timestamp (signatures (documents s h) a)) < 2 ^ 53"
  shows "verifyRoute s h = VerifyOk
           \<lparr>rep_documentHash = h, isFullyValid = True,
            validSignatures = length (signers (documents s h)),
            totalSigners = length (signers (documents s h)),
            rep_verificationResults =
              map (\<lambda>a. \<lparr>vr_signer = a, vr_isValid = True,
                         vr_signedAt = unat (sig_timestamp (signatures (documents s h) a)),
                         vr_documentActive = isActive (documents s h),
                         vr_error = None\<rparr>)
                  (signers (documents s h))\<rparr>"
proof -
  let ?sgs = "signers (documents s h)"
  let ?verify = "\<lambda>signer. Returned (verifySignature s h signer)"
  let ?entry = "\<lambda>a. \<lparr>vr_signer = a, vr_isValid = True,
       vr_signedAt = unat (sig_timestamp (signatures (documents s h) a)),
       vr_documentActive = isActive (documents s h), vr_error = None\<rparr>"
  have entry: "verificationEntry a (?verify a) = ?entry a" if "a \<in> set ?sgs" for a
    using that ex all
    by (simp add: verifySignature_def verifyDocumentSignature_def documentExists_iff
          toNumber_def Let_def)
  have res: "verificationResults ?verify ?sgs = map ?entry ?sgs"
    by (simp add: verificationResults_map entry)
  have "\<forall>e \<in> set (map ?entry ?sgs). vr_isValid e"
    by auto
  then have "length (filter vr_isValid (map ?entry ?sgs)) = length (map ?entry ?sgs)"
    by (simp only: length_filter_all)
  then have full: "length (filter vr_isValid (map ?entry ?sgs)) = length ?sgs"
    by simp
  show ?thesis
    using ex
    by (simp add: verifyRoute_def verifyHandler_def getRequiredSigners_def
          getDocumentSigners_def Let_def res full del: filter_map)
qed

text \<open>
  C9. When \<open>c\<close> has signed a document and the document is revoked later, after any
  transactions in between, \<open>c\<close> is still one of the document's signers and
  \<^verbatim>\<open>verifyDocumentSignature\<close> for \<open>c\<close> still returns \<open>isValid = True\<close> with the signing
  time, and \<open>documentActive = False\<close>. If moreover every required signer has signed
  (with signing times that \<^verbatim>\<open>toNumber\<close> accepts), the verify route reports
  \<open>isFullyValid = True\<close> for the revoked document: the report counts every signer as
  valid and has exactly one entry per signer of the document, in the order of the signers
  sequence, so it is not empty and holds the entry of \<open>c\<close>; every entry has
  \<open>isValid = True\<close>, the signer's signing time and no error, and the revocation shows
  only in \<open>documentActive = False\<close> of every entry.
\<close>

theorem verify_revoked_document:
  assumes "signDocument s c now h ref = Inr s1"
    and "revokeDocument (run s1 ts) r now' h = Inr s2"
  shows "verifyDocumentSignature s2 h c = Inr (True, now, False)
     \<and> c \<in> set (signers (documents s2 h))
     \<and> ((\<forall>a \<in> set (signers (documents s2 h)).
            sig_signed (signatures (documents s2 h) a)
            \<and> unat (sig_timestamp (signatures (documents s2 h) a)) < 2 ^ 53) \<longrightarrow>
         (\<exists>rep. verifyRoute s2 h = VerifyOk rep \<and> isFullyValid rep
            \<and> (\<forall>e \<in> set (rep_verificationResults rep).
                  vr_isValid e \<and> \<not> vr_documentActive e)
            \<and> rep_documentHash rep = h
            \<and> totalSigners rep = length (signers (documents s2 h))
            \<and> validSignatures rep = length (signers (documents s2 h))
            \<and> map vr_signer (rep_verificationResults rep) = signers (documents s2 h)
            \<and> rep_verificationResults rep =
                 map (\<lambda>a. \<lparr>vr_signer = a, vr_isValid = True,
                            vr_signedAt =
                              unat (sig_timestamp (signatures (documents s2 h) a)),
                            vr_documentActive = False, vr_error = None\<rparr>)
                     (signers (documents s2 h))
            \<and> rep_verificationResults rep \<noteq> []
            \<and> \<lparr>vr_signer = c, vr_isValid = True, vr_signedAt = unat now,
                 vr_documentActive = False, vr_error = None\<rparr>
                \<in> set (rep_verificationResults rep)))"
proof -
  let ?sgs = "signers (documents s2 h)"
  let ?entry = "\<lambda>a. \<lparr>vr_signer = a, vr_isValid = True,
       vr_signedAt = unat (sig_timestamp (signatures (documents s2 h) a)),
       vr_documentActive = False, vr_error = None\<rparr>"
  from assms(1) have sg: "signatures (documents s1 h) c =
      \<lparr>sig_signed = True, sig_timestamp = now, ipfsHash = ref\<rparr>"
    and ex1: "documentExists s1 h"
    by (simp_all add: signDocument_result)
  from sg have "sig_signed (signatures (documents s1 h) c)" by simp
  then have "signatures (documents (run s1 ts) h) c = signatures (documents s1 h) c"
    by (rule run_signed)
  moreover from assms(2) have "signatures (documents s2 h) = signatures (documents (run s1 ts) h)"
    by (rule revokeDocument_signatures)
  ultimately have sg2: "signatures (documents s2 h) c =
      \<lparr>sig_signed = True, sig_timestamp = now, ipfsHash = ref\<rparr>"
    using sg by simp
  from assms(2) have ex: "documentExists s2 h" and off: "\<not> isActive (documents s2 h)"
    by (simp_all add: revokeDocument_exists)
  have one: "verifyDocumentSignature s2 h c = Inr (True, now, False)"
    using ex off sg2
    by (simp add: verifyDocumentSignature_def documentExists_iff Let_def)
  from assms(1) have "c \<in> set (signers (documents s1 h))"
    by (rule signDocument_declared)
  moreover from ex1 have "signers (documents (run s1 ts) h) = signers (documents s1 h)"
    by (rule run_signers)
  moreover from assms(2) have "?sgs = signers (documents (run s1 ts) h)"
    by (rule revokeDocument_signers)
  ultimately have mem: "c \<in> set ?sgs" by simp
  have route: "\<exists>rep. verifyRoute s2 h = VerifyOk rep \<and> isFullyValid rep
            \<and> (\<forall>e \<in> set (rep_verificationResults rep).
                  vr_isValid e \<and> \<not> vr_documentActive e)
            \<and> rep_documentHash rep = h
            \<and> totalSigners rep = length ?sgs
            \<and> validSignatures rep = length ?sgs
            \<and> map vr_signer (rep_verificationResults rep) = ?sgs
            \<and> rep_verificationResults rep = map ?entry ?sgs
            \<and> rep_verificationResults rep \<noteq> []
            \<and> \<lparr>vr_signer = c, vr_isValid = True, vr_signedAt = unat now,
                 vr_documentActive = False, vr_error = None\<rparr>
                \<in> set (rep_verificationResults rep)"
    if all: "\<forall>a \<in> set ?sgs.
            sig_signed (signatures (documents s2 h) a)
            \<and> unat (sig_timestamp (signatures (documents s2 h) a)) < 2 ^ 53"
  proof -
    let ?rep = "\<lparr>rep_documentHash = h, isFullyValid = True,
        validSignatures = length ?sgs, totalSigners = length ?sgs,
        rep_verificationResults = map ?entry ?sgs\<rparr>"
    have r: "verifyRoute s2 h = VerifyOk ?rep"
      using verifyRoute_all_signed [OF ex all] off by simp
    have names: "map vr_signer (map ?entry ?sgs) = ?sgs"
      by (simp add: comp_def)
    have nonempty: "map ?entry ?sgs \<noteq> []"
      using mem by auto
    have "?entry c \<in> set (map ?entry ?sgs)"
      using mem by (rule imageI [of c "set ?sgs" ?entry, unfolded set_map [symmetric]])
    then have own: "\<lparr>vr_signer = c, vr_isValid = True, vr_signedAt = unat now,
        vr_documentActive = False, vr_error = None\<rparr> \<in> set (map ?entry ?sgs)"
      by (simp only: sg2 Signature.simps)
    have each: "\<forall>e \<in> set (map ?entry ?sgs). vr_isValid e \<and> \<not> vr_documentActive e"
      by auto
    show ?thesis
      using r names nonempty own each by (intro exI [of _ ?rep]) simp
  qed
  from one mem route show ?thesis by blast
qed

theorem verify_revoked_document_witness:
  "\<exists>s1 s2. signDocument scenarioSigned 11 2001 ''H'' '''' = Inr s1
     \<and> revokeDocument (run s1 []) 99 5000 ''H'' = Inr s2
     \<and> verifyDocumentSignature s2 ''H'' 11 = Inr (True, 2001, False)
     \<and> (\<exists>rep. verifyRoute s2 ''H'' = VerifyOk rep \<and> isFullyValid rep
            \<and> (\<forall>e \<in> set (rep_verificationResults rep).
                  vr_isValid e \<and> \<not> vr_documentActive e)
            \<and> totalSigners rep = 2 \<and> validSignatures rep = 2
            \<and> rep_verificationResults rep =
                 [\<lparr>vr_signer = 10, vr_isValid = True, vr_signedAt = 2000,
                   vr_documentActive = False, vr_error = None\<rparr>,
                  \<lparr>vr_signer = 11, vr_isValid = True, vr_signedAt = 2001,
                   vr_documentActive = False, vr_error = None\<rparr>])"
proof -
  let ?t = "\<lparr>msg_sender = 11, block_timestamp = 2001, tx_call = SignDocument ''H'' ''''\<rparr>"
  let ?r = "\<lparr>msg_sender = 99, block_timestamp = 5000, tx_call = RevokeDocument ''H''\<rparr>"
  define s1 where "s1 = step scenarioSigned ?t"
  define s2 where "s2 = step s1 ?r"
  have d1: "documents s1 ''H'' =
      \<lparr>documentHash = ''H'', signers = [10, 11], timestamp = 1000, isActive = True,
       signatures = (\<lambda>_. zeroSignature)(10 :=
          \<lparr>sig_signed = True, sig_timestamp = 2000, ipfsHash = ''Qm''\<rparr>,
          11 := \<lparr>sig_signed = True, sig_timestamp = 2001, ipfsHash = ''''\<rparr>)\<rparr>"
    by (simp add: s1_def step_def commit_def signDocument_def scenarioSigned_exists
          scenarioSigned_doc documentActive_def authorizedScan_iff zeroSignature_def)
  have a: "signDocument scenarioSigned 11 2001 ''H'' '''' = Inr s1"
    by (simp add: s1_def step_def commit_def signDocument_def scenarioSigned_exists
          scenarioSigned_doc documentActive_def authorizedScan_iff zeroSignature_def)
  have e1: "documentExists s1 ''H''"
    by (simp add: documentExists_def d1)
  have b: "revokeDocument (run s1 []) 99 5000 ''H'' = Inr s2"
    by (simp add: s2_def step_def commit_def revokeDocument_def e1)
  have d2: "documents s2 ''H'' =
      \<lparr>documentHash = ''H'', signers = [10, 11], timestamp = 1000, isActive = False,
       signatures = (\<lambda>_. zeroSignature)(10 :=
          \<lparr>sig_signed = True, sig_timestamp = 2000, ipfsHash = ''Qm''\<rparr>,
          11 := \<lparr>sig_signed = True, sig_timestamp = 2001, ipfsHash = ''''\<rparr>)\<rparr>"
    by (simp add: s2_def step_def commit_def revokeDocument_def e1 d1)
  have all: "\<forall>a \<in> set (signers (documents s2 ''H'')).
            sig_signed (signatures (documents s2 ''H'') a)
            \<and> unat (sig_timestamp (signatures (documents s2 ''H'') a)) < 2 ^ 53"
    by (simp add: d2)
  from verify_revoked_document [OF a b] all
  obtain rep where rep: "verifyDocumentSignature s2 ''H'' 11 = Inr (True, 2001, False)"
      "verifyRoute s2 ''H'' = VerifyOk rep" "isFullyValid rep"
      "\<forall>e \<in> set (rep_verificationResults rep). vr_isValid e \<and> \<not> vr_documentActive e"
      "totalSigners rep = length (signers (documents s2 ''H''))"
      "validSignatures rep = length (signers (documents s2 ''H''))"
      "rep_verificationResults rep =
         map (\<lambda>a. \<lparr>vr_signer = a, vr_isValid = True,
                    vr_signedAt = unat (sig_timestamp (signatures (documents s2 ''H'') a)),
                    vr_documentActive = False, vr_error = None\<rparr>)
             (signers (documents s2 ''H''))"
    by blast
  from rep(5) have n: "totalSigners rep = 2" by (simp add: d2)
  from rep(6) have v: "validSignatures rep = 2" by (simp add: d2)
  from rep(7) have l: "rep_verificationResults rep =
                 [\<lparr>vr_signer = 10, vr_isValid = True, vr_signedAt = 2000,
                   vr_documentActive = False, vr_error = None\<rparr>,
                  \<lparr>vr_signer = 11, vr_isValid = True, vr_signedAt = 2001,
                   vr_documentActive = False, vr_error = None\<rparr>]"
    by (simp add: d2)
  from a b rep(1-4) n v l show ?thesis by blast
qed

subsection \<open>Attribution in the sign route\<close>

text \<open>
  The only transaction the sign route sends is \<^verbatim>\<open>signDocument\<close> from the service's
  wallet, so the only signature it can write is the wallet's: the signature of the
  authenticated identity is untouched unless that identity is the wallet itself.
\<close>

lemma signRoute_writes_wallet_only:
  assumes "signRoute wallet now s signerAddress h upload = (resp, s')"
    and "a \<noteq> wallet"
  shows "signatures (documents s' h') a = signatures (documents s h') a"
  using assms
  by (auto simp: signRoute_def service_signDocument_def signDocument_def Let_def
        split: sum.splits if_splits prod.splits bool.splits)

text \<open>
  C3. The signature written by the sign flow should be that of the authenticated
  identity; it is that of the service's wallet instead. The handler checks
  \<^verbatim>\<open>req.user.address\<close> and then calls
  \<^verbatim>\<open>signatureService.signDocument(documentHash, ipfsHash)\<close>, which sends the transaction
  from the wallet of \<^verbatim>\<open>PRIVATE_KEY\<close>. In the scenario, with the wallet \<open>11\<close> and the
  authenticated signer \<open>10\<close>, the route answers 200 with \<open>signer = 10\<close>, the ledger
  holds a signature of \<open>11\<close> and none of \<open>10\<close>; with the wallet \<open>77\<close>, which is not a
  signer, the contract reverts, the route answers 500 and nothing is written.
\<close>

theorem signRoute_signs_as_wallet:
  "(\<exists>s'. signRoute 11 2000 scenarioH 10 ''H'' None =
            (SignOk \<lparr>sr_signer = 10, sr_ipfsHash = None, isDocumentComplete = False\<rparr>, s')
        \<and> signatures (documents s' ''H'') 11 =
             \<lparr>sig_signed = True, sig_timestamp = 2000, ipfsHash = ''''\<rparr>
        \<and> signatures (documents s' ''H'') 10 = zeroSignature
        \<and> events s' = events scenarioH @ [DocumentSigned ''H'' 11])
   \<and> signRoute 77 2000 scenarioH 10 ''H'' None =
        (SignFailed (Reverted NotAuthorizedToSign), scenarioH)"
proof -
  have sgs: "getRequiredSigners scenarioH ''H'' = Inr [10, 11]"
    by (simp add: getRequiredSigners_def getDocumentSigners_def scenarioH_exists
          scenarioH_doc)
  have st: "getSignatureStatus scenarioH ''H'' 10 = Inr (False, 0, '''')"
    by (simp add: getSignatureStatus_def getSignature_def scenarioH_exists scenarioH_doc
          zeroSignature_def toNumber_def)
  define s' where "s' = scenarioH\<lparr>documents := (documents scenarioH)(''H'' :=
      (documents scenarioH ''H'')\<lparr>signatures := (signatures (documents scenarioH ''H''))(11 :=
         \<lparr>sig_signed = True, sig_timestamp = 2000, ipfsHash = ''''\<rparr>)\<rparr>),
      events := events scenarioH @ [DocumentSigned ''H'' 11]\<rparr>"
  have w11: "service_signDocument 11 2000 scenarioH ''H'' '''' = (Inr (), s')"
    by (simp add: service_signDocument_def signDocument_def scenarioH_exists scenarioH_doc
          documentActive_def authorizedScan_iff zeroSignature_def s'_def)
  have w77: "service_signDocument 77 2000 scenarioH ''H'' '''' =
      (Inl (Reverted NotAuthorizedToSign), scenarioH)"
    by (simp add: service_signDocument_def signDocument_def scenarioH_exists scenarioH_doc
          documentActive_def authorizedScan_iff)
  have d: "documents s' ''H'' =
      \<lparr>documentHash = ''H'', signers = [10, 11], timestamp = 1000, isActive = True,
       signatures = (\<lambda>_. zeroSignature)(11 :=
          \<lparr>sig_signed = True, sig_timestamp = 2000, ipfsHash = ''''\<rparr>)\<rparr>"
    by (simp add: s'_def scenarioH_doc)
  have fs: "isDocumentFullySigned s' ''H'' = Inr False"
    by (auto simp: isDocumentFullySigned_def isFullySigned_def documentExists_def d
          fullySignedScan_drop zeroSignature_def)
  have "signRoute 11 2000 scenarioH 10 ''H'' None =
      (SignOk \<lparr>sr_signer = 10, sr_ipfsHash = None, isDocumentComplete = False\<rparr>, s')"
    by (simp add: signRoute_def sgs st w11 fs)
  moreover have "signRoute 77 2000 scenarioH 10 ''H'' None =
      (SignFailed (Reverted NotAuthorizedToSign), scenarioH)"
    by (simp add: signRoute_def sgs st w77)
  moreover have "events s' = events scenarioH @ [DocumentSigned ''H'' 11]"
    by (simp add: s'_def)
  ultimately show ?thesis by (simp add: d)
qed

end
